theory Spec2Isabelle
  imports Main
begin

section \<open>Data model of \<open>src/main.cpp\<close>\<close>

text \<open>
  Pointers to objects of the multimedia engine are addresses; \<open>None\<close> is \<open>nullptr\<close>.
\<close>

type_synonym handle = nat
type_synonym ptr = "handle option"

text \<open>
  The fields of class \<open>MyVideoPlayer\<close>. The thread object \<open>m_inputThread\<close> is represented
  where the threads are modelled, in section \<open>The process\<close>.
\<close>

record player =
  m_streamUrl :: string
  m_pipeline :: ptr
  m_mainloop :: ptr
  m_quit :: bool

datatype GstState =
  GST_STATE_VOID_PENDING | GST_STATE_NULL | GST_STATE_READY | GST_STATE_PAUSED | GST_STATE_PLAYING

text \<open>
  One operand of a \<open><<\<close> chain on \<open>std::cout\<close> or \<open>std::cerr\<close>: a string, an \<open>int\<close>,
  the name of a pipeline state (\<open>gst_element_state_get_name\<close>), or \<open>std::endl\<close>.
\<close>

datatype piece = Str string | Num int | StateName GstState | Endl

text \<open>
  Everything the program does to the outside is recorded as a trace of events: output
  statements and calls into GLib and GStreamer, with their arguments.
\<close>

datatype thread_id = InfoThread | InputThread

datatype event =
    Cout "piece list"
  | Cerr "piece list"
  | GstInit
  | ElementFactoryMake string string
  | SetUri ptr string
  | GObjectSet ptr string int
  | ElementGetBus ptr
  | BusAddWatch ptr
  | ObjectUnref ptr
  | MainLoopNew
  | ElementSetState ptr GstState
  | MainLoopRun ptr
  | MainLoopQuit ptr
  | MainLoopUnref ptr
  | Spawn thread_id
  | Detach thread_id
  | Join thread_id
  | SleepSeconds nat
  | GObjectGetCounts ptr
  | SignalEmit ptr string int

section \<open>\<open>std::stoi\<close>\<close>

text \<open>
  \<open>std::stoi(str)\<close> of the C++ standard library, with its default base 10, as
  \<open>handleUserInput\<close> calls it: it runs \<open>strtol\<close>, which skips leading white space
  (\<open>isspace\<close> of the C locale), takes an optional sign and then the longest run of decimal
  digits, and ignores whatever follows. It throws \<open>std::invalid_argument\<close> when there is
  no digit to convert and \<open>std::out_of_range\<close> when the value does not fit an \<open>int\<close>
  (32 bits).
\<close>

datatype stoi_error = invalid_argument | out_of_range

definition isspace :: "char \<Rightarrow> bool" where
  "isspace c = (of_char c \<in> {32, 9, 10, 11, 12, 13 :: nat})"

definition isdigit :: "char \<Rightarrow> bool" where
  "isdigit c = (48 \<le> (of_char c :: nat) \<and> (of_char c :: nat) \<le> 57)"

definition digit_value :: "char \<Rightarrow> int" where
  "digit_value c = int (of_char c) - 48"

definition INT_MAX :: int where
  "INT_MAX = 2147483647"

definition INT_MIN :: int where
  "INT_MIN = - 2147483648"

text \<open>The conversion loop of \<open>strtol\<close>: \<open>acc = acc * 10 + digit\<close>, left to right.\<close>

fun accumulate :: "int \<Rightarrow> string \<Rightarrow> int" where
  "accumulate acc [] = acc"
| "accumulate acc (c # cs) = accumulate (acc * 10 + digit_value c) cs"

text \<open>The range check at the end of \<open>stoi\<close>.\<close>

definition in_int_range :: "int \<Rightarrow> stoi_error + int" where
  "in_int_range v = (if v < INT_MIN \<or> INT_MAX < v then Inl out_of_range else Inr v)"

definition stoi :: "string \<Rightarrow> stoi_error + int" where
  "stoi str =
     (let s = dropWhile isspace str;
          (negative, t) = (case s of
              c # cs \<Rightarrow> if c = CHR ''-'' then (True, cs)
                        else if c = CHR ''+'' then (False, cs)
                        else (False, s)
            | [] \<Rightarrow> (False, s));
          ds = takeWhile isdigit t
      in if ds = [] then Inl invalid_argument
         else in_int_range (if negative then - accumulate 0 ds else accumulate 0 ds))"

section \<open>Command Interpreter\<close>

definition switchAudio :: "player \<Rightarrow> int \<Rightarrow> event list" where
  "switchAudio p trackId =
     [GObjectSet (m_pipeline p) ''current-audio'' trackId,
      Cout [Str ''Switched to audio track #'', Num trackId, Endl]]"

definition switchSubtitle :: "player \<Rightarrow> int \<Rightarrow> event list" where
  "switchSubtitle p trackId =
     [GObjectSet (m_pipeline p) ''current-text'' trackId,
      Cout [Str ''Switched to subtitle track #'', Num trackId, Endl]]"

datatype loop_ctl = Continue | Break

text \<open>
  The body of the \<open>while\<close> loop of \<open>handleUserInput\<close>, for the line \<open>cmd\<close> that
  \<open>std::getline\<close> has read: the events it produces, and whether it leaves the loop.
\<close>

definition handleCommand :: "player \<Rightarrow> string \<Rightarrow> event list \<times> loop_ctl" where
  "handleCommand p cmd =
     (if cmd = ''q'' then
        ([Cout [Str ''Shutting down...'', Endl], MainLoopQuit (m_mainloop p)], Break)
      else if length cmd > 1 \<and> (hd cmd = CHR ''a'' \<or> hd cmd = CHR ''s'') then
        (case stoi (tl cmd) of
           Inr trackId \<Rightarrow>
             (if hd cmd = CHR ''a'' then switchAudio p trackId
              else switchSubtitle p trackId, Continue)
         | Inl _ \<Rightarrow> ([Cout [Str ''Invalid track number'', Endl]], Continue))
      else ([], Continue))"

text \<open>
  The loop \<open>while (!m_quit && std::getline(std::cin, cmd))\<close> on the lines that standard
  input still holds; \<open>getline\<close> fails at the end of the input. Within this function
  nothing writes \<open>m_quit\<close>.
\<close>

fun input_loop :: "player \<Rightarrow> string list \<Rightarrow> event list" where
  "input_loop p [] = []"
| "input_loop p (cmd # rest) =
     (if m_quit p then []
      else case handleCommand p cmd of
             (evs, Break) \<Rightarrow> evs
           | (evs, Continue) \<Rightarrow> evs @ input_loop p rest)"

definition controls_banner :: "event list" where
  "controls_banner =
     [Cout [Str ''Controls:''],
      Cout [Str ''  'a0', 'a1'... = Audio track''],
      Cout [Str ''  's0', 's1'... = Subtitle track''],
      Cout [Str ''  'q'           = Quit'']]"

definition handleUserInput :: "player \<Rightarrow> string list \<Rightarrow> event list" where
  "handleUserInput p lines = controls_banner @ input_loop p lines"

text \<open>
  How a command line is written: the decimal numeral of a natural number, without
  leading zeros.
\<close>

definition digit_char :: "nat \<Rightarrow> char" where
  "digit_char d = ''0123456789'' ! d"

fun decimal :: "nat \<Rightarrow> string" where
  "decimal n =
     (if n < 10 then [digit_char n] else decimal (n div 10) @ [digit_char (n mod 10)])"

declare decimal.simps [simp del]

text \<open>A player after a successful \<open>setupPlayer\<close>, for the concrete runs below.\<close>

definition configured :: player where
  "configured = \<lparr>m_streamUrl = ''http://host/stream.m3u8'',
                  m_pipeline = Some 1, m_mainloop = Some 2, m_quit = False\<rparr>"

section \<open>Event Bridge\<close>

text \<open>
  A bus message as \<open>handleBusMessage\<close> reads it: \<open>GST_MESSAGE_TYPE\<close>,
  \<open>GST_MESSAGE_SRC\<close>, what \<open>gst_message_parse_error\<close> yields (\<open>err->message\<close>, or
  \<open>None\<close> when \<open>err\<close> stays null; the \<open>debug\<close> string, or \<open>None\<close> when it is null) and
  what \<open>gst_message_parse_state_changed\<close> yields. \<open>GST_MESSAGE_OTHER k\<close> stands for
  each of the remaining message types of GStreamer (warning, info, tag, buffering, ...).
\<close>

datatype GstMessageType =
  GST_MESSAGE_ERROR | GST_MESSAGE_EOS | GST_MESSAGE_STATE_CHANGED | GST_MESSAGE_OTHER nat

record GstMessage =
  msg_type :: GstMessageType
  msg_src :: ptr
  err_message :: "string option"
  debug_info :: "string option"
  old_state :: GstState
  current_state :: GstState
  pending_state :: GstState

text \<open>The events of the callback and the \<open>gboolean\<close> it returns (always \<open>TRUE\<close>).\<close>

definition handleBusMessage :: "player \<Rightarrow> GstMessage \<Rightarrow> event list \<times> bool" where
  "handleBusMessage p msg =
     ((case msg_type msg of
         GST_MESSAGE_ERROR \<Rightarrow>
           [Cerr [Str ''PLAYER ERROR: '',
                  Str (case err_message msg of Some m \<Rightarrow> m | None \<Rightarrow> ''Unknown error''),
                  Str ''Debug: '',
                  Str (case debug_info msg of Some d \<Rightarrow> d | None \<Rightarrow> ''No debug info''),
                  Endl],
            MainLoopQuit (m_mainloop p)]
       | GST_MESSAGE_EOS \<Rightarrow>
           [Cout [Str ''End of Stream reached'', Endl], MainLoopQuit (m_mainloop p)]
       | GST_MESSAGE_STATE_CHANGED \<Rightarrow>
           (if msg_src msg = m_pipeline p then
              [Cout [Str ''State: '', StateName (old_state msg),
                     Str ''State: '', StateName (current_state msg), Endl]]
            else [])
       | GST_MESSAGE_OTHER k \<Rightarrow> []),
      True)"

section \<open>Track Inspector\<close>

text \<open>
  What the engine answers: the element that \<open>gst_element_factory_make\<close> returns (\<open>None\<close>
  when it cannot create one), the bus of the pipeline, the loop that \<open>g_main_loop_new\<close>
  returns (GLib never returns null there), the properties \<open>n-audio\<close>, \<open>n-text\<close> and
  \<open>n-video\<close> (each a \<open>gint\<close>), and the tag list that the action signal of a given name
  yields for an index: \<open>None\<close> when \<open>tags\<close> stays null, otherwise the language code that
  \<open>gst_tag_list_get_string\<close> finds in it, if any.
\<close>

type_synonym GstTagList = "string option"

record engine =
  playbin :: ptr
  bus :: handle
  mainloop :: handle
  n_audio :: int
  n_text :: int
  n_video :: int
  get_tags :: "string \<Rightarrow> int \<Rightarrow> GstTagList option"

text \<open>One iteration of the \<open>for\<close> loop of \<open>listTracks\<close>, at index \<open>i\<close>.\<close>

definition listTrack :: "player \<Rightarrow> engine \<Rightarrow> string \<Rightarrow> string \<Rightarrow> int \<Rightarrow> event list" where
  "listTrack p eng type signalName i =
     SignalEmit (m_pipeline p) signalName i #
     (case get_tags eng signalName i of
        Some (Some lang) \<Rightarrow>
          [Cout [Str ''  '', Str type, Str ''['', Num i, Str ''] '', Str lang, Endl]]
      | _ \<Rightarrow> [])"

text \<open>The loop \<open>for (gint i = 0; i < count; ++i)\<close>, from index \<open>i\<close> on.\<close>

function listTracks_from ::
  "player \<Rightarrow> engine \<Rightarrow> string \<Rightarrow> int \<Rightarrow> string \<Rightarrow> int \<Rightarrow> event list" where
  "listTracks_from p eng type count signalName i =
     (if i < count then
        listTrack p eng type signalName i @ listTracks_from p eng type count signalName (i + 1)
      else [])"
  by pat_completeness auto
termination
  by (relation "measure (\<lambda>(p, eng, type, count, signalName, i). nat (count - i))") auto

declare listTracks_from.simps [simp del]

definition listTracks :: "player \<Rightarrow> engine \<Rightarrow> string \<Rightarrow> int \<Rightarrow> string \<Rightarrow> event list" where
  "listTracks p eng type count signalName = listTracks_from p eng type count signalName 0"

definition showStreamDetails :: "player \<Rightarrow> engine \<Rightarrow> event list" where
  "showStreamDetails p eng =
     SleepSeconds 3 #
     (if m_pipeline p = None then []
      else
        (let audioTracks = n_audio eng; subtitleTracks = n_text eng; videoTracks = n_video eng
         in [GObjectGetCounts (m_pipeline p),
             Cout [Str ''Stream Discovery:''],
             Cout [Str ''Video tracks: '', Num videoTracks, Endl],
             Cout [Str ''Audio tracks: '', Num audioTracks, Endl],
             Cout [Str ''Subtitle tracks: '', Num subtitleTracks, Endl]]
            @ listTracks p eng ''Audio'' audioTracks ''get-audio-tags''
            @ listTracks p eng ''Subtitle'' subtitleTracks ''get-text-tags''))"

section \<open>Pipeline Handle: construction and teardown\<close>

definition MyVideoPlayer :: "string \<Rightarrow> player \<times> event list" where
  "MyVideoPlayer url =
     (\<lparr>m_streamUrl = url, m_pipeline = None, m_mainloop = None, m_quit = False\<rparr>,
      [Cout [Str ''MyVideoPlayer initializing for: '', Str url, Endl]])"

definition setupPlayer :: "engine \<Rightarrow> player \<Rightarrow> bool \<times> player \<times> event list" where
  "setupPlayer eng p =
     (let p1 = p\<lparr>m_pipeline := playbin eng\<rparr>;
          made = [GstInit, ElementFactoryMake ''playbin'' ''my-player'']
      in if m_pipeline p1 = None then
           (False, p1, made @ [Cerr [Str ''FATAL: Could not create playbin!'', Endl]])
         else
           (True, p1\<lparr>m_mainloop := Some (mainloop eng)\<rparr>,
            made @
            [SetUri (m_pipeline p1) (m_streamUrl p1),
             GObjectSet (m_pipeline p1) ''latency'' 500,
             GObjectSet (m_pipeline p1) ''buffer-size'' (4 * 1024 * 1024),
             GObjectSet (m_pipeline p1) ''ring-buffer-max-size'' 0,
             ElementGetBus (m_pipeline p1),
             BusAddWatch (Some (bus eng)),
             ObjectUnref (Some (bus eng)),
             MainLoopNew,
             Cout [Str ''Player setup complete. Ready to play!'', Endl]]))"

text \<open>
  \<open>cleanup\<close>; \<open>running\<close> is what \<open>g_main_loop_is_running\<close> answers when it is asked.
\<close>

definition cleanup :: "bool \<Rightarrow> player \<Rightarrow> player \<times> event list" where
  "cleanup running p =
     (let (p1, e1) =
            (if m_pipeline p \<noteq> None then
               (p\<lparr>m_pipeline := None\<rparr>,
                [ElementSetState (m_pipeline p) GST_STATE_NULL, ObjectUnref (m_pipeline p)])
             else (p, []));
          (p2, e2) =
            (if m_mainloop p1 \<noteq> None then
               (p1\<lparr>m_mainloop := None\<rparr>,
                (if running then [MainLoopQuit (m_mainloop p1)] else [])
                @ [MainLoopUnref (m_mainloop p1)])
             else (p1, []))
      in (p2, e1 @ e2 @ [Cout [Str ''Cleanup complete'', Endl]]))"

text \<open>The handles that a trace releases, in order.\<close>

fun released :: "event list \<Rightarrow> ptr list" where
  "released [] = []"
| "released (ObjectUnref h # evs) = h # released evs"
| "released (MainLoopUnref h # evs) = h # released evs"
| "released (_ # evs) = released evs"

section \<open>The process\<close>

text \<open>
  \<open>startPlayback\<close> runs three threads: the main thread inside \<open>g_main_loop_run\<close>, the
  detached thread of \<open>showStreamDetails\<close> and the thread of \<open>handleUserInput\<close>. What
  happens to the process from outside is a schedule, a list of stimuli in the order in
  which they are served: the bus delivers a message to the watch, standard input delivers
  a line or its end, the sleep of the detached thread elapses. Each stimulus is served in
  one piece by the thread it wakes. A schedule is finite: a thread that still waits when
  the schedule is used up waits for ever, and the function that models it returns \<open>None\<close>.
\<close>

datatype stimulus = BusMessage GstMessage | StdinLine string | StdinEof | SleepElapsed

text \<open>
  The two background threads: whether the input thread is still inside its loop (blocked
  in \<open>std::getline\<close>), and whether the detached thread is still asleep.
\<close>

record threads =
  input_running :: bool
  info_sleeping :: bool

text \<open>
  A stimulus of a background thread. The input thread runs the loop body on the line it
  was waiting for and then tests \<open>m_quit\<close> at the head of the loop; the end of the input
  makes \<open>getline\<close> fail. The detached thread wakes up once.
\<close>

fun background :: "engine \<Rightarrow> player \<Rightarrow> threads \<Rightarrow> stimulus \<Rightarrow> event list \<times> threads" where
  "background eng p th (StdinLine cmd) =
     (if input_running th then
        (case handleCommand p cmd of
           (evs, ctl) \<Rightarrow> (evs, th\<lparr>input_running := (ctl = Continue \<and> \<not> m_quit p)\<rparr>))
      else ([], th))"
| "background eng p th StdinEof = ([], th\<lparr>input_running := False\<rparr>)"
| "background eng p th SleepElapsed =
     (if info_sleeping th then (showStreamDetails p eng, th\<lparr>info_sleeping := False\<rparr>)
      else ([], th))"
| "background eng p th (BusMessage msg) = ([], th)"

text \<open>
  \<open>g_main_loop_run\<close>: the main thread dispatches bus messages to \<open>handleBusMessage\<close>
  while the other threads run, until some thread calls \<open>g_main_loop_quit\<close> on the loop.
  The result is the trace, the state of the threads and the rest of the schedule.
\<close>

fun g_main_loop_run ::
  "engine \<Rightarrow> player \<Rightarrow> threads \<Rightarrow> stimulus list \<Rightarrow> (event list \<times> threads \<times> stimulus list) option"
where
  "g_main_loop_run eng p th [] = None"
| "g_main_loop_run eng p th (s # ss) =
     (let (evs, th') = (case s of
                          BusMessage msg \<Rightarrow> (fst (handleBusMessage p msg), th)
                        | _ \<Rightarrow> background eng p th s)
      in if MainLoopQuit (m_mainloop p) \<in> set evs then Some (evs, th', ss)
         else (case g_main_loop_run eng p th' ss of
                 None \<Rightarrow> None
               | Some (evs', r) \<Rightarrow> Some (evs @ evs', r)))"

text \<open>
  \<open>m_inputThread.join()\<close>: the main thread waits until the input thread has left its
  loop. The loop of the main thread is no longer running, so bus messages stay undelivered.
\<close>

fun join_inputThread ::
  "engine \<Rightarrow> player \<Rightarrow> threads \<Rightarrow> stimulus list \<Rightarrow> event list option" where
  "join_inputThread eng p th [] = (if input_running th then None else Some [])"
| "join_inputThread eng p th (s # ss) =
     (if \<not> input_running th then Some []
      else (case background eng p th s of
              (evs, th') \<Rightarrow> map_option ((@) evs) (join_inputThread eng p th' ss)))"

text \<open>
  \<open>startPlayback\<close>. The main thread starts the input thread and enters
  \<open>g_main_loop_run\<close> at once, while the new thread writes its banner and blocks in
  \<open>getline\<close>: the two are concurrent, and the trace lists the call of the main thread
  first. \<open>m_inputThread.joinable()\<close> holds after the loop, since the thread has been
  started and not joined.
\<close>

definition startPlayback :: "engine \<Rightarrow> player \<Rightarrow> stimulus list \<Rightarrow> (player \<times> event list) option"
where
  "startPlayback eng p sched =
     (if m_pipeline p = None then Some (p, [Cerr [Str ''Pipeline not initialized!'', Endl]])
      else
        (let started =
               [Cout [Str '' Starting playback...'', Endl],
                ElementSetState (m_pipeline p) GST_STATE_PLAYING,
                Spawn InfoThread, Detach InfoThread, Spawn InputThread,
                MainLoopRun (m_mainloop p)]
               @ controls_banner
         in case g_main_loop_run eng p \<lparr>input_running = True, info_sleeping = True\<rparr> sched of
              None \<Rightarrow> None
            | Some (evs, th, rest) \<Rightarrow>
                (let p' = p\<lparr>m_quit := True\<rparr>
                 in case join_inputThread eng p' th rest of
                      None \<Rightarrow> None
                    | Some evs' \<Rightarrow> Some (p', started @ evs @ [Join InputThread] @ evs'))))"

text \<open>
  \<open>main\<close>, with \<open>argv[0]\<close> and the arguments after it (\<open>argc = 1 + length args\<close>): the
  exit code and the trace of the process, or \<open>None\<close> when the process does not exit on
  this schedule. The destructor of \<open>player\<close> runs \<open>cleanup\<close> at both \<open>return\<close>s that
  follow its construction; no loop is running then.
\<close>

definition main :: "string \<Rightarrow> string list \<Rightarrow> engine \<Rightarrow> stimulus list \<Rightarrow> (int \<times> event list) option"
where
  "main argv0 args eng sched =
     (case args of
        [] \<Rightarrow>
          Some (1, [Cerr [Str ''Usage: '', Str argv0, Str '' <stream_url>''],
                    Cerr [Str ''Example: '', Str argv0,
                          Str '' https://test-streams.mux.dev/x36xhzz/x36xhzz.m3u8'']])
      | url # _ \<Rightarrow>
          (case MyVideoPlayer url of
             (p0, e0) \<Rightarrow>
               (case setupPlayer eng p0 of
                  (ok, p1, e1) \<Rightarrow>
                    if \<not> ok then
                      (case cleanup False p1 of (p2, e2) \<Rightarrow> Some (2, e0 @ e1 @ e2))
                    else
                      (case startPlayback eng p1 sched of
                         None \<Rightarrow> None
                       | Some (p2, e2) \<Rightarrow>
                           (case cleanup False p2 of
                              (p3, e3) \<Rightarrow> Some (0, e0 @ e1 @ e2 @ e3))))))"

text \<open>
  The player that \<open>main\<close> holds after \<open>setupPlayer\<close> has succeeded, and the bus messages
  on which \<open>handleBusMessage\<close> calls \<open>g_main_loop_quit\<close>.
\<close>

definition configured_by :: "engine \<Rightarrow> string \<Rightarrow> player" where
  "configured_by eng url =
     \<lparr>m_streamUrl = url, m_pipeline = playbin eng, m_mainloop = Some (mainloop eng),
      m_quit = False\<rparr>"

definition stops_loop :: "GstMessage \<Rightarrow> bool" where
  "stops_loop m = (msg_type m = GST_MESSAGE_ERROR \<or> msg_type m = GST_MESSAGE_EOS)"

text \<open>An engine and messages for the concrete runs below.\<close>

definition demo_engine :: engine where
  "demo_engine =
     \<lparr>playbin = Some 1, bus = 3, mainloop = 2, n_audio = 3, n_text = 1, n_video = 1,
      get_tags = (\<lambda>signalName i.
         if signalName = ''get-audio-tags'' then
           (if i = 0 then Some (Some ''en'') else if i = 1 then None else Some None)
         else Some (Some ''fr''))\<rparr>"

definition demo_args :: "string list" where
  "demo_args = [''http://host/stream.m3u8'']"

definition demo_message :: "GstMessageType \<Rightarrow> ptr \<Rightarrow> GstMessage" where
  "demo_message t src =
     \<lparr>msg_type = t, msg_src = src,
      err_message = Some ''Could not resolve host'', debug_info = None,
      old_state = GST_STATE_READY, current_state = GST_STATE_PAUSED,
      pending_state = GST_STATE_PLAYING\<rparr>"

section \<open>Properties\<close>

subsection \<open>Numerals and \<open>stoi\<close>\<close>

lemma of_char_digit_char:
  assumes "d < 10"
  shows "of_char (digit_char d) = 48 + d"
proof -
  from assms have "d \<in> {0, 1, 2, 3, 4, 5, 6, 7, 8, 9}" by auto
  then show ?thesis by (auto simp: digit_char_def)
qed

lemma isdigit_digit_char: "d < 10 \<Longrightarrow> isdigit (digit_char d)"
  by (simp add: isdigit_def of_char_digit_char)

lemma digit_value_digit_char: "d < 10 \<Longrightarrow> digit_value (digit_char d) = int d"
  by (simp add: digit_value_def of_char_digit_char)

lemma decimal_digits: "list_all isdigit (decimal n)"
proof (induction n rule: decimal.induct)
  case (1 n)
  show ?case
  proof (cases "n < 10")
    case True
    then show ?thesis by (subst decimal.simps) (simp add: isdigit_digit_char)
  next
    case False
    with 1 have "list_all isdigit (decimal (n div 10))" by simp
    with False show ?thesis by (subst decimal.simps) (simp add: isdigit_digit_char)
  qed
qed

lemma decimal_nonempty: "decimal n \<noteq> []"
  by (subst decimal.simps) simp

lemma accumulate_append: "accumulate a (xs @ ys) = accumulate (accumulate a xs) ys"
  by (induction xs arbitrary: a) simp_all

lemma accumulate_decimal: "accumulate 0 (decimal n) = int n"
proof (induction n rule: decimal.induct)
  case (1 n)
  show ?case
  proof (cases "n < 10")
    case True
    then show ?thesis
      by (subst decimal.simps) (simp add: digit_value_digit_char)
  next
    case False
    with 1 have "accumulate 0 (decimal (n div 10)) = int (n div 10)" by simp
    moreover have "int (n div 10) * 10 + int (n mod 10) = int n" by presburger
    ultimately show ?thesis using False
      by (subst decimal.simps) (simp add: accumulate_append digit_value_digit_char)
  qed
qed

lemma accumulate_zeros: "accumulate 0 (replicate z (CHR ''0'') @ ds) = accumulate 0 ds"
  by (induction z) (simp_all add: digit_value_def)

lemma isdigit_zero: "isdigit (CHR ''0'')"
  by (simp add: isdigit_def)

lemma numeral_digits: "list_all isdigit (replicate z (CHR ''0'') @ decimal n)"
proof -
  have "list_all isdigit (replicate z (CHR ''0''))"
    by (induction z) (simp_all add: isdigit_zero)
  then show ?thesis by (simp add: decimal_digits)
qed

lemma numeral_value: "accumulate 0 (replicate z (CHR ''0'') @ decimal n) = int n"
  by (simp add: accumulate_zeros accumulate_decimal)

lemma isdigit_not_isspace: "isdigit c \<Longrightarrow> \<not> isspace c"
  by (auto simp: isdigit_def isspace_def)

lemma isdigit_not_sign: "isdigit c \<Longrightarrow> c \<noteq> CHR ''-'' \<and> c \<noteq> CHR ''+''"
  by (auto simp: isdigit_def)

lemma takeWhile_digits:
  assumes "list_all isdigit ds" and "rest = [] \<or> \<not> isdigit (hd rest)"
  shows "takeWhile isdigit (ds @ rest) = ds"
proof (cases rest)
  case Nil
  with assms(1) show ?thesis by (simp add: list_all_iff)
next
  case (Cons r rs)
  with assms have "\<not> isdigit r" by simp
  with assms(1) Cons show ?thesis by (simp add: list_all_iff)
qed

lemma stoi_unsigned:
  assumes "ds \<noteq> []" and "list_all isdigit ds" and "rest = [] \<or> \<not> isdigit (hd rest)"
  shows "stoi (ds @ rest) = in_int_range (accumulate 0 ds)"
proof -
  obtain c cs where ds: "ds = c # cs" using assms(1) by (cases ds) auto
  with assms(2) have c: "isdigit c" by simp
  have tw: "takeWhile isdigit (c # cs @ rest) = ds"
    using takeWhile_digits [OF assms(2,3)] ds by simp
  show ?thesis
    using c isdigit_not_isspace [OF c] isdigit_not_sign [OF c] tw assms(1)
    unfolding stoi_def ds by (simp add: Let_def)
qed

lemma stoi_minus:
  assumes "ds \<noteq> []" and "list_all isdigit ds" and "rest = [] \<or> \<not> isdigit (hd rest)"
  shows "stoi (CHR ''-'' # ds @ rest) = in_int_range (- accumulate 0 ds)"
  using takeWhile_digits [OF assms(2,3)] assms(1)
  unfolding stoi_def by (simp add: Let_def isspace_def)

lemma stoi_plus:
  assumes "ds \<noteq> []" and "list_all isdigit ds" and "rest = [] \<or> \<not> isdigit (hd rest)"
  shows "stoi (CHR ''+'' # ds @ rest) = in_int_range (accumulate 0 ds)"
  using takeWhile_digits [OF assms(2,3)] assms(1)
  unfolding stoi_def by (simp add: Let_def isspace_def)

lemma stoi_numeral:
  "stoi (replicate z (CHR ''0'') @ decimal n) = in_int_range (int n)"
  using stoi_unsigned [of "replicate z (CHR ''0'') @ decimal n" "[]"] numeral_digits [of z n]
  by (simp add: numeral_value decimal_nonempty)

lemma input_loop_step:
  "\<not> m_quit p \<Longrightarrow> handleCommand p cmd = (evs, Continue) \<Longrightarrow>
   input_loop p (cmd # rest) = evs @ input_loop p rest"
  by simp

lemma handleCommand_track:
  assumes "c = CHR ''a'' \<or> c = CHR ''s''" and "arg \<noteq> []"
  shows "handleCommand p (c # arg) =
     (case stoi arg of
        Inr trackId \<Rightarrow>
          (if c = CHR ''a'' then switchAudio p trackId else switchSubtitle p trackId, Continue)
      | Inl e \<Rightarrow> ([Cout [Str ''Invalid track number'', Endl]], Continue))"
  using assms by (cases arg) (auto simp: handleCommand_def split: sum.splits)

subsection \<open>Command Interpreter\<close>

text \<open>
  Claim C1, as amended. For every line \<open>a<N>\<close> or \<open>s<N>\<close>, where \<open><N>\<close> is the decimal
  numeral of a natural number \<open>N\<close> that fits an \<open>int\<close> (\<open>N \<le> 2147483647\<close>), with any number
  of leading zeros, the loop body calls \<open>g_object_set\<close> once, on \<open>current-audio\<close> for
  \<open>a\<close> and on \<open>current-text\<close> for \<open>s\<close>, with the value \<open>N\<close>, logs the switch and does not
  leave the loop: the loop goes on with the lines that follow.
\<close>

theorem well_formed_track_command:
  assumes "int N \<le> INT_MAX"
  shows "handleCommand p (CHR ''a'' # replicate z (CHR ''0'') @ decimal N) =
           ([GObjectSet (m_pipeline p) ''current-audio'' (int N),
             Cout [Str ''Switched to audio track #'', Num (int N), Endl]], Continue)
       \<and> handleCommand p (CHR ''s'' # replicate z (CHR ''0'') @ decimal N) =
           ([GObjectSet (m_pipeline p) ''current-text'' (int N),
             Cout [Str ''Switched to subtitle track #'', Num (int N), Endl]], Continue)
       \<and> (\<not> m_quit p \<longrightarrow>
            input_loop p ((CHR ''a'' # replicate z (CHR ''0'') @ decimal N) # rest) =
              switchAudio p (int N) @ input_loop p rest
          \<and> input_loop p ((CHR ''s'' # replicate z (CHR ''0'') @ decimal N) # rest) =
              switchSubtitle p (int N) @ input_loop p rest)"
proof -
  let ?arg = "replicate z (CHR ''0'') @ decimal N"
  have ne: "?arg \<noteq> []" by (simp add: decimal_nonempty)
  have "in_int_range (int N) = Inr (int N)"
    using assms by (simp add: in_int_range_def INT_MIN_def)
  then have st: "stoi ?arg = Inr (int N)" by (simp add: stoi_numeral)
  have a: "handleCommand p (CHR ''a'' # ?arg) = (switchAudio p (int N), Continue)"
    using handleCommand_track [of "CHR ''a''" ?arg p] ne st by simp
  have s: "handleCommand p (CHR ''s'' # ?arg) = (switchSubtitle p (int N), Continue)"
    using handleCommand_track [of "CHR ''s''" ?arg p] ne st by simp
  show ?thesis
    using a s input_loop_step [OF _ a] input_loop_step [OF _ s]
    by (simp add: switchAudio_def switchSubtitle_def)
qed

theorem well_formed_track_command_witness:
  "int 2 \<le> INT_MAX \<and> int 7 \<le> INT_MAX \<and> \<not> m_quit configured
   \<and> handleCommand configured ''a2'' =
     ([GObjectSet (Some 1) ''current-audio'' 2,
       Cout [Str ''Switched to audio track #'', Num 2, Endl]], Continue)
   \<and> input_loop configured [''s007'', ''q''] =
     [GObjectSet (Some 1) ''current-text'' 7,
      Cout [Str ''Switched to subtitle track #'', Num 7, Endl],
      Cout [Str ''Shutting down...'', Endl], MainLoopQuit (Some 2)]"
proof -
  have d2: "decimal 2 = ''2''" and d7: "decimal 7 = ''7''"
    by (simp_all add: decimal.simps digit_char_def)
  have q: "input_loop configured [''q''] =
      [Cout [Str ''Shutting down...'', Endl], MainLoopQuit (Some 2)]"
    by (simp add: handleCommand_def configured_def)
  from well_formed_track_command [of 2 configured 0 "[]"] d2
  have "handleCommand configured ''a2'' =
     ([GObjectSet (Some 1) ''current-audio'' 2,
       Cout [Str ''Switched to audio track #'', Num 2, Endl]], Continue)"
    by (simp add: INT_MAX_def configured_def)
  moreover
  from well_formed_track_command [of 7 configured 2 "[''q'']"] d7 q
  have "input_loop configured [''s007'', ''q''] =
     [GObjectSet (Some 1) ''current-text'' 7,
      Cout [Str ''Switched to subtitle track #'', Num 7, Endl],
      Cout [Str ''Shutting down...'', Endl], MainLoopQuit (Some 2)]"
    by (simp add: INT_MAX_def configured_def switchSubtitle_def numeral_2_eq_2)
  ultimately show ?thesis by (simp add: INT_MAX_def configured_def)
qed

text \<open>
  Claim C1 as the specification states it, for every natural number, fails at
  \<open>N = 2147483648\<close>: \<open>stoi\<close> throws \<open>std::out_of_range\<close>, the handler logs the invalid track
  number and no track is switched.
\<close>

theorem numeral_beyond_int_rejected:
  "decimal 2147483648 = ''2147483648''
   \<and> handleCommand configured ''a2147483648'' =
       ([Cout [Str ''Invalid track number'', Endl]], Continue)"
  by (simp add: decimal.simps digit_char_def handleCommand_def stoi_def isspace_def isdigit_def
      digit_value_def in_int_range_def INT_MAX_def INT_MIN_def)


text \<open>
  Claim C2, as amended. A line other than \<open>q\<close> never ends the loop: the loop body
  continues, and the loop goes on with the lines that follow. The message
  \<open>Invalid track number\<close> is logged exactly when the line is longer than one character,
  starts with \<open>a\<close> or \<open>s\<close>, and \<open>std::stoi\<close> throws on the remainder (as for \<open>aabc\<close>); a
  line that does not start with \<open>a\<close> or \<open>s\<close>, or has one character only (as \<open>xyz\<close> and
  \<open>a\<close>), is ignored without any message.
\<close>

theorem other_lines_continue:
  assumes "cmd \<noteq> ''q''"
  shows "snd (handleCommand p cmd) = Continue
       \<and> (\<not> m_quit p \<longrightarrow>
            input_loop p (cmd # rest) = fst (handleCommand p cmd) @ input_loop p rest)
       \<and> (fst (handleCommand p cmd) = [Cout [Str ''Invalid track number'', Endl]] \<longleftrightarrow>
            length cmd > 1 \<and> (hd cmd = CHR ''a'' \<or> hd cmd = CHR ''s'') \<and> isl (stoi (tl cmd)))
       \<and> (\<not> (length cmd > 1 \<and> (hd cmd = CHR ''a'' \<or> hd cmd = CHR ''s'')) \<longrightarrow>
            fst (handleCommand p cmd) = [])"
proof -
  have ctl: "snd (handleCommand p cmd) = Continue"
    using assms by (simp add: handleCommand_def split: sum.splits)
  then have "handleCommand p cmd = (fst (handleCommand p cmd), Continue)"
    by (metis prod.collapse)
  then have loop: "\<not> m_quit p \<longrightarrow>
      input_loop p (cmd # rest) = fst (handleCommand p cmd) @ input_loop p rest"
    using input_loop_step by blast
  have inv: "fst (handleCommand p cmd) = [Cout [Str ''Invalid track number'', Endl]] \<longleftrightarrow>
      length cmd > 1 \<and> (hd cmd = CHR ''a'' \<or> hd cmd = CHR ''s'') \<and> isl (stoi (tl cmd))"
    using assms
    by (auto simp: handleCommand_def switchAudio_def switchSubtitle_def split: sum.splits)
  have silent: "\<not> (length cmd > 1 \<and> (hd cmd = CHR ''a'' \<or> hd cmd = CHR ''s'')) \<longrightarrow>
      fst (handleCommand p cmd) = []"
    using assms by (auto simp: handleCommand_def)
  from ctl loop inv silent show ?thesis by blast
qed

theorem other_lines_continue_witness:
  "''aabc'' \<noteq> ''q'' \<and> \<not> m_quit configured
   \<and> handleCommand configured ''aabc'' = ([Cout [Str ''Invalid track number'', Endl]], Continue)
   \<and> input_loop configured [''aabc'', ''a1''] =
       [Cout [Str ''Invalid track number'', Endl],
        GObjectSet (Some 1) ''current-audio'' 1,
        Cout [Str ''Switched to audio track #'', Num 1, Endl]]"
proof -
  have st: "stoi ''abc'' = Inl invalid_argument"
    by (simp add: stoi_def isspace_def isdigit_def)
  have a1: "input_loop configured [''a1''] =
      [GObjectSet (Some 1) ''current-audio'' 1,
       Cout [Str ''Switched to audio track #'', Num 1, Endl]]"
    by (simp add: handleCommand_def stoi_def isspace_def isdigit_def digit_value_def
        in_int_range_def INT_MAX_def INT_MIN_def switchAudio_def configured_def)
  have q: "\<not> m_quit configured" by (simp add: configured_def)
  from other_lines_continue [of "''aabc''" configured "[''a1'']"] st q
  have ev: "fst (handleCommand configured ''aabc'') = [Cout [Str ''Invalid track number'', Endl]]"
    and ctl: "snd (handleCommand configured ''aabc'') = Continue"
    and loop: "input_loop configured [''aabc'', ''a1''] =
      fst (handleCommand configured ''aabc'') @ input_loop configured [''a1'']"
    by simp_all
  from ev ctl have "handleCommand configured ''aabc'' =
      ([Cout [Str ''Invalid track number'', Endl]], Continue)"
    by (metis prod.collapse)
  with loop ev a1 q show ?thesis by simp
qed

text \<open>
  Claim C2 as the specification states it fails at the lines \<open>xyz\<close> and \<open>a\<close>, which it
  names: nothing is logged for them.
\<close>

theorem unknown_line_not_logged:
  "handleCommand configured ''xyz'' = ([], Continue)
   \<and> handleCommand configured ''a'' = ([], Continue)"
  by (simp add: handleCommand_def)

text \<open>
  Claim C3. On the line \<open>q\<close> the loop body logs the shutdown, calls \<open>g_main_loop_quit\<close>
  and breaks: the lines after it are not processed. In the process, the event loop stops
  at that line, the input thread has left its loop and \<open>join\<close> returns at once, whatever
  the schedule still holds.
\<close>

theorem quit_command:
  "handleCommand p ''q'' =
     ([Cout [Str ''Shutting down...'', Endl], MainLoopQuit (m_mainloop p)], Break)
   \<and> (\<not> m_quit p \<longrightarrow>
        input_loop p (''q'' # rest) =
          [Cout [Str ''Shutting down...'', Endl], MainLoopQuit (m_mainloop p)])
   \<and> (input_running th \<longrightarrow>
        g_main_loop_run eng p th (StdinLine ''q'' # sched) =
          Some ([Cout [Str ''Shutting down...'', Endl], MainLoopQuit (m_mainloop p)],
                th\<lparr>input_running := False\<rparr>, sched)
      \<and> join_inputThread eng (p\<lparr>m_quit := True\<rparr>) (th\<lparr>input_running := False\<rparr>) sched = Some [])"
proof -
  have 1: "handleCommand p ''q'' =
     ([Cout [Str ''Shutting down...'', Endl], MainLoopQuit (m_mainloop p)], Break)"
    by (simp add: handleCommand_def)
  have 2: "join_inputThread eng (p\<lparr>m_quit := True\<rparr>) (th\<lparr>input_running := False\<rparr>) sched = Some []"
    by (cases sched) simp_all
  show ?thesis using 1 2 by simp
qed

theorem quit_command_witness:
  "\<not> m_quit configured
   \<and> input_loop configured [''q'', ''a1'', ''s2''] =
       [Cout [Str ''Shutting down...'', Endl], MainLoopQuit (Some 2)]
   \<and> input_running \<lparr>input_running = True, info_sleeping = True\<rparr>
   \<and> g_main_loop_run demo_engine configured \<lparr>input_running = True, info_sleeping = True\<rparr>
        [StdinLine ''q'', StdinLine ''a1''] =
       Some ([Cout [Str ''Shutting down...'', Endl], MainLoopQuit (Some 2)],
             \<lparr>input_running = False, info_sleeping = True\<rparr>, [StdinLine ''a1''])"
  using quit_command [of configured "[''a1'', ''s2'']" "\<lparr>input_running = True, info_sleeping = True\<rparr>"
      demo_engine "[StdinLine ''a1'']"]
  by (simp add: configured_def)

text \<open>
  Claim C10, as amended. A line whose first character is \<open>a\<close> or \<open>s\<close> and whose remainder
  is an optional sign, a decimal numeral (leading zeros allowed) and then any characters that
  do not go on with a digit, is dispatched as a track switch with the signed value of the
  numeral, negative values included, provided that this value fits an \<open>int\<close>.
\<close>

theorem lenient_track_command:
  assumes "c = CHR ''a'' \<or> c = CHR ''s''"
    and "sign = [] \<or> sign = ''+'' \<or> sign = ''-''"
    and "rest = [] \<or> \<not> isdigit (hd rest)"
    and "v = (if sign = ''-'' then - int N else int N)"
    and "INT_MIN \<le> v \<and> v \<le> INT_MAX"
  shows "handleCommand p (c # sign @ replicate z (CHR ''0'') @ decimal N @ rest) =
           (if c = CHR ''a'' then switchAudio p v else switchSubtitle p v, Continue)"
proof -
  let ?ds = "replicate z (CHR ''0'') @ decimal N"
  have ne: "?ds \<noteq> []" by (simp add: decimal_nonempty)
  have dg: "list_all isdigit ?ds" by (rule numeral_digits)
  have val: "accumulate 0 ?ds = int N" by (rule numeral_value)
  have rng: "in_int_range v = Inr v"
    using assms(5) by (simp add: in_int_range_def)
  have "stoi (sign @ ?ds @ rest) = Inr v"
    using assms(2)
  proof (elim disjE)
    assume "sign = []"
    with stoi_unsigned [OF ne dg assms(3)] val rng assms(4) show ?thesis by simp
  next
    assume "sign = ''+''"
    with stoi_plus [OF ne dg assms(3)] val rng assms(4) show ?thesis by simp
  next
    assume "sign = ''-''"
    with stoi_minus [OF ne dg assms(3)] val rng assms(4) show ?thesis by simp
  qed
  moreover have "sign @ ?ds @ rest \<noteq> []" by (simp add: decimal_nonempty)
  ultimately show ?thesis
    using handleCommand_track [OF assms(1), of "sign @ ?ds @ rest" p] by simp
qed

theorem lenient_track_command_witness:
  "\<not> isdigit (hd ''xyz'') \<and> INT_MIN \<le> - 3 \<and> 2 \<le> INT_MAX
   \<and> handleCommand configured ''a2xyz'' =
     ([GObjectSet (Some 1) ''current-audio'' 2,
       Cout [Str ''Switched to audio track #'', Num 2, Endl]], Continue)
   \<and> handleCommand configured ''a-3'' =
     ([GObjectSet (Some 1) ''current-audio'' (- 3),
       Cout [Str ''Switched to audio track #'', Num (- 3), Endl]], Continue)"
proof -
  have d2: "decimal 2 = ''2''" and d3: "decimal 3 = ''3''"
    by (simp_all add: decimal.simps digit_char_def)
  have x: "\<not> isdigit (hd ''xyz'')" by (simp add: isdigit_def)
  from lenient_track_command [of "CHR ''a''" "[]" "''xyz''" 2 2 configured 0] d2 x
  have "handleCommand configured ''a2xyz'' = (switchAudio configured 2, Continue)"
    by (simp add: INT_MAX_def INT_MIN_def)
  moreover
  from lenient_track_command [of "CHR ''a''" "''-''" "[]" "- 3" 3 configured 0] d3
  have "handleCommand configured ''a-3'' = (switchAudio configured (- 3), Continue)"
    by (simp add: INT_MAX_def INT_MIN_def)
  ultimately show ?thesis
    using x by (simp add: switchAudio_def configured_def INT_MAX_def INT_MIN_def)
qed

text \<open>
  Claim C10 as stated, for every optionally signed decimal integer, fails where the integer
  does not fit an \<open>int\<close>: the line is rejected as an invalid track number.
\<close>

theorem signed_integer_beyond_int_rejected:
  "handleCommand configured ''a-2147483649'' =
     ([Cout [Str ''Invalid track number'', Endl]], Continue)
   \<and> handleCommand configured ''s99999999999xyz'' =
     ([Cout [Str ''Invalid track number'', Endl]], Continue)"
  by (simp add: handleCommand_def stoi_def isspace_def isdigit_def
      digit_value_def in_int_range_def INT_MAX_def INT_MIN_def)


subsection \<open>Event Bridge\<close>

text \<open>
  Claim C4. \<open>handleBusMessage\<close> dispatches on the type of the message. On an error it logs
  the message of the error (or \<open>Unknown error\<close>) and the debug detail (or \<open>No debug info\<close>)
  and calls \<open>g_main_loop_quit\<close>; on end-of-stream it logs and calls \<open>g_main_loop_quit\<close>;
  on a state change it logs the names of the old and the new state when the source of the
  message is the pipeline of the player, logs nothing when the source is another object, and
  never calls \<open>g_main_loop_quit\<close>; on any other message it does nothing.
\<close>

theorem event_bridge_dispatch:
  "(msg_type msg = GST_MESSAGE_ERROR \<longrightarrow>
      handleBusMessage p msg =
        ([Cerr [Str ''PLAYER ERROR: '',
                Str (case err_message msg of Some m \<Rightarrow> m | None \<Rightarrow> ''Unknown error''),
                Str ''Debug: '',
                Str (case debug_info msg of Some d \<Rightarrow> d | None \<Rightarrow> ''No debug info''),
                Endl],
          MainLoopQuit (m_mainloop p)], True))
   \<and> (msg_type msg = GST_MESSAGE_EOS \<longrightarrow>
      handleBusMessage p msg =
        ([Cout [Str ''End of Stream reached'', Endl], MainLoopQuit (m_mainloop p)], True))
   \<and> (msg_type msg = GST_MESSAGE_STATE_CHANGED \<longrightarrow>
      handleBusMessage p msg =
        (if msg_src msg = m_pipeline p then
           [Cout [Str ''State: '', StateName (old_state msg),
                  Str ''State: '', StateName (current_state msg), Endl]]
         else [], True)
      \<and> (\<forall>l. MainLoopQuit l \<notin> set (fst (handleBusMessage p msg))))
   \<and> (msg_type msg = GST_MESSAGE_OTHER k \<longrightarrow> handleBusMessage p msg = ([], True))"
  by (simp add: handleBusMessage_def)

theorem event_bridge_dispatch_witness:
  "handleBusMessage configured (demo_message GST_MESSAGE_ERROR (Some 7)) =
     ([Cerr [Str ''PLAYER ERROR: '', Str ''Could not resolve host'',
             Str ''Debug: '', Str ''No debug info'', Endl],
       MainLoopQuit (Some 2)], True)
   \<and> handleBusMessage configured (demo_message GST_MESSAGE_EOS (Some 1)) =
     ([Cout [Str ''End of Stream reached'', Endl], MainLoopQuit (Some 2)], True)
   \<and> handleBusMessage configured (demo_message GST_MESSAGE_STATE_CHANGED (Some 1)) =
     ([Cout [Str ''State: '', StateName GST_STATE_READY,
             Str ''State: '', StateName GST_STATE_PAUSED, Endl]], True)
   \<and> handleBusMessage configured (demo_message GST_MESSAGE_STATE_CHANGED (Some 7)) = ([], True)
   \<and> handleBusMessage configured (demo_message (GST_MESSAGE_OTHER 5) (Some 1)) = ([], True)"
  using event_bridge_dispatch [of "demo_message GST_MESSAGE_ERROR (Some 7)" configured]
    event_bridge_dispatch [of "demo_message GST_MESSAGE_EOS (Some 1)" configured]
    event_bridge_dispatch [of "demo_message GST_MESSAGE_STATE_CHANGED (Some 1)" configured]
    event_bridge_dispatch [of "demo_message GST_MESSAGE_STATE_CHANGED (Some 7)" configured]
    event_bridge_dispatch [of "demo_message (GST_MESSAGE_OTHER 5) (Some 1)" configured 5]
  by (simp add: demo_message_def configured_def)

subsection \<open>Teardown\<close>

lemma cleanup_absent:
  "m_pipeline p = None \<Longrightarrow> m_mainloop p = None \<Longrightarrow>
   cleanup r p = (p, [Cout [Str ''Cleanup complete'', Endl]])"
  by (simp add: cleanup_def)

lemma cleanup_clears:
  "cleanup r p = (p1, e1) \<Longrightarrow> m_pipeline p1 = None \<and> m_mainloop p1 = None"
  by (auto simp: cleanup_def split: if_splits)

lemma cleanup_released:
  "released (snd (cleanup r p)) =
     (case m_pipeline p of None \<Rightarrow> [] | Some h \<Rightarrow> [Some h])
     @ (case m_mainloop p of None \<Rightarrow> [] | Some l \<Rightarrow> [Some l])"
  by (auto simp: cleanup_def split: option.splits)

text \<open>
  Claim C8. After a first \<open>cleanup\<close> both handles of the player are null, and a second
  \<open>cleanup\<close> right after it changes nothing and only logs: the two calls together release
  the pipeline once and the loop once, each only if the player held it. On a player that
  was never configured, \<open>cleanup\<close> itself only logs.
\<close>

theorem cleanup_idempotent:
  assumes "cleanup r1 p = (p1, e1)" and "cleanup r2 p1 = (p2, e2)"
  shows "m_pipeline p1 = None \<and> m_mainloop p1 = None
       \<and> p2 = p1 \<and> e2 = [Cout [Str ''Cleanup complete'', Endl]]
       \<and> released (e1 @ e2) =
           (case m_pipeline p of None \<Rightarrow> [] | Some h \<Rightarrow> [Some h])
           @ (case m_mainloop p of None \<Rightarrow> [] | Some l \<Rightarrow> [Some l])
       \<and> (m_pipeline p = None \<and> m_mainloop p = None \<longrightarrow>
            p1 = p \<and> e1 = [Cout [Str ''Cleanup complete'', Endl]])"
proof -
  from cleanup_clears [OF assms(1)]
  have clr: "m_pipeline p1 = None" "m_mainloop p1 = None" by simp_all
  from cleanup_absent [OF clr, of r2] assms(2)
  have snd: "p2 = p1" "e2 = [Cout [Str ''Cleanup complete'', Endl]]" by simp_all
  have "released (e1 @ e2) = released e1" using snd(2) by (induction e1 rule: released.induct) simp_all
  also have "released e1 = released (snd (cleanup r1 p))" using assms(1) by simp
  finally have rel: "released (e1 @ e2) =
           (case m_pipeline p of None \<Rightarrow> [] | Some h \<Rightarrow> [Some h])
           @ (case m_mainloop p of None \<Rightarrow> [] | Some l \<Rightarrow> [Some l])"
    by (simp only: cleanup_released)
  have "m_pipeline p = None \<and> m_mainloop p = None \<longrightarrow>
            p1 = p \<and> e1 = [Cout [Str ''Cleanup complete'', Endl]]"
    using cleanup_absent [of p r1] assms(1) by auto
  with clr snd rel show ?thesis by blast
qed

theorem cleanup_idempotent_witness:
  "cleanup True configured =
     (configured\<lparr>m_pipeline := None, m_mainloop := None\<rparr>,
      [ElementSetState (Some 1) GST_STATE_NULL, ObjectUnref (Some 1),
       MainLoopQuit (Some 2), MainLoopUnref (Some 2), Cout [Str ''Cleanup complete'', Endl]])
   \<and> cleanup False (configured\<lparr>m_pipeline := None, m_mainloop := None\<rparr>) =
     (configured\<lparr>m_pipeline := None, m_mainloop := None\<rparr>,
      [Cout [Str ''Cleanup complete'', Endl]])
   \<and> released ([ElementSetState (Some 1) GST_STATE_NULL, ObjectUnref (Some 1),
       MainLoopQuit (Some 2), MainLoopUnref (Some 2), Cout [Str ''Cleanup complete'', Endl]]
       @ [Cout [Str ''Cleanup complete'', Endl]]) = [Some 1, Some 2]"
proof -
  have 1: "cleanup True configured =
     (configured\<lparr>m_pipeline := None, m_mainloop := None\<rparr>,
      [ElementSetState (Some 1) GST_STATE_NULL, ObjectUnref (Some 1),
       MainLoopQuit (Some 2), MainLoopUnref (Some 2), Cout [Str ''Cleanup complete'', Endl]])"
    by (simp add: cleanup_def configured_def)
  have 2: "cleanup False (configured\<lparr>m_pipeline := None, m_mainloop := None\<rparr>) =
     (configured\<lparr>m_pipeline := None, m_mainloop := None\<rparr>,
      [Cout [Str ''Cleanup complete'', Endl]])"
    by (simp add: cleanup_def configured_def)
  from cleanup_idempotent [OF 1 2] 1 2 show ?thesis
    by (simp add: configured_def)
qed


subsection \<open>Track Inspector\<close>

lemma listTracks_from_upto:
  "listTracks_from p eng type count signalName i =
     concat (map (listTrack p eng type signalName) [i..count - 1])"
proof (induction p eng type count signalName i rule: listTracks_from.induct)
  case (1 p eng type count signalName i)
  show ?case
  proof (cases "i < count")
    case True
    then have "[i..count - 1] = i # [i + 1..count - 1]"
      by (simp add: upto_rec1)
    with True 1 show ?thesis
      by (subst listTracks_from.simps) simp
  next
    case False
    then show ?thesis
      by (subst listTracks_from.simps) simp
  qed
qed

text \<open>
  Claim C9. \<open>showStreamDetails\<close> first sleeps three seconds. If the player has no pipeline
  then, it does nothing more and logs nothing. Otherwise it reads the three counts, logs the
  numbers of video, audio and subtitle tracks, and visits the audio indices and then the
  subtitle indices from \<open>0\<close> up to the count, excluded, each of them once and in order; at an
  index it asks for the tags and logs the language exactly when the tag list exists and
  holds a language code.
\<close>

theorem track_inspector:
  "showStreamDetails p eng =
     SleepSeconds 3 #
     (if m_pipeline p = None then []
      else [GObjectGetCounts (m_pipeline p),
            Cout [Str ''Stream Discovery:''],
            Cout [Str ''Video tracks: '', Num (n_video eng), Endl],
            Cout [Str ''Audio tracks: '', Num (n_audio eng), Endl],
            Cout [Str ''Subtitle tracks: '', Num (n_text eng), Endl]]
           @ concat (map (listTrack p eng ''Audio'' ''get-audio-tags'') [0..n_audio eng - 1])
           @ concat (map (listTrack p eng ''Subtitle'' ''get-text-tags'') [0..n_text eng - 1]))
   \<and> (\<forall>type signalName i.
        listTrack p eng type signalName i =
          SignalEmit (m_pipeline p) signalName i #
          (case get_tags eng signalName i of
             Some (Some lang) \<Rightarrow>
               [Cout [Str ''  '', Str type, Str ''['', Num i, Str ''] '', Str lang, Endl]]
           | _ \<Rightarrow> []))"
  by (simp add: showStreamDetails_def listTracks_def listTracks_from_upto listTrack_def Let_def)

theorem track_inspector_witness:
  "showStreamDetails configured demo_engine =
     [SleepSeconds 3, GObjectGetCounts (Some 1),
      Cout [Str ''Stream Discovery:''],
      Cout [Str ''Video tracks: '', Num 1, Endl],
      Cout [Str ''Audio tracks: '', Num 3, Endl],
      Cout [Str ''Subtitle tracks: '', Num 1, Endl],
      SignalEmit (Some 1) ''get-audio-tags'' 0,
      Cout [Str ''  '', Str ''Audio'', Str ''['', Num 0, Str ''] '', Str ''en'', Endl],
      SignalEmit (Some 1) ''get-audio-tags'' 1,
      SignalEmit (Some 1) ''get-audio-tags'' 2,
      SignalEmit (Some 1) ''get-text-tags'' 0,
      Cout [Str ''  '', Str ''Subtitle'', Str ''['', Num 0, Str ''] '', Str ''fr'', Endl]]
   \<and> showStreamDetails (configured\<lparr>m_pipeline := None\<rparr>) demo_engine = [SleepSeconds 3]"
proof -
  have u: "[0..2::int] = [0, 1, 2]" "[0..0::int] = [0]"
    by (simp_all add: upto_rec1)
  from track_inspector [of configured demo_engine]
    track_inspector [of "configured\<lparr>m_pipeline := None\<rparr>" demo_engine] u
  show ?thesis
    by (simp add: configured_def demo_engine_def)
qed


subsection \<open>The process\<close>

lemma main_usage:
  "main argv0 [] eng sched =
     Some (1, [Cerr [Str ''Usage: '', Str argv0, Str '' <stream_url>''],
               Cerr [Str ''Example: '', Str argv0,
                     Str '' https://test-streams.mux.dev/x36xhzz/x36xhzz.m3u8'']])"
  by (simp add: main_def)

lemma main_fatal:
  "playbin eng = None \<Longrightarrow>
   main argv0 (url # others) eng sched =
     Some (2, [Cout [Str ''MyVideoPlayer initializing for: '', Str url, Endl],
               GstInit, ElementFactoryMake ''playbin'' ''my-player'',
               Cerr [Str ''FATAL: Could not create playbin!'', Endl],
               Cout [Str ''Cleanup complete'', Endl]])"
  by (simp add: main_def MyVideoPlayer_def setupPlayer_def cleanup_def)

lemma startPlayback_result:
  assumes "startPlayback eng p sched = Some (p2, e2)" and "m_pipeline p \<noteq> None"
  shows "p2 = p\<lparr>m_quit := True\<rparr>"
  using assms by (auto simp: startPlayback_def Let_def split: option.splits)

lemma g_main_loop_run_quit:
  "g_main_loop_run eng p th sched = Some (evs, th', rest) \<Longrightarrow>
   MainLoopQuit (m_mainloop p) \<in> set evs"
proof (induction sched arbitrary: th evs)
  case Nil
  then show ?case by simp
next
  case (Cons s ss)
  obtain e t where st: "(case s of BusMessage msg \<Rightarrow> (fst (handleBusMessage p msg), th)
                          | _ \<Rightarrow> background eng p th s) = (e, t)"
    by (cases "(case s of BusMessage msg \<Rightarrow> (fst (handleBusMessage p msg), th)
                          | _ \<Rightarrow> background eng p th s)") auto
  show ?case
  proof (cases "MainLoopQuit (m_mainloop p) \<in> set e")
    case True
    with Cons.prems st show ?thesis by simp
  next
    case False
    with Cons.prems st obtain e' where
      "g_main_loop_run eng p t ss = Some (e', th', rest)" and "evs = e @ e'"
      by (auto split: option.splits)
    with Cons.IH show ?thesis by simp
  qed
qed

lemma startPlayback_quit:
  assumes "startPlayback eng p sched = Some (p2, e2)" and "m_pipeline p \<noteq> None"
  shows "MainLoopQuit (m_mainloop p) \<in> set e2"
  using assms g_main_loop_run_quit [of eng p "\<lparr>input_running = True, info_sleeping = True\<rparr>" sched]
  by (auto simp: startPlayback_def Let_def split: option.splits)

lemma main_playing:
  assumes "playbin eng \<noteq> None"
  shows "main argv0 (url # others) eng sched =
     map_option
       (\<lambda>(p2, e2).
          (0, snd (MyVideoPlayer url) @ snd (snd (setupPlayer eng (fst (MyVideoPlayer url))))
              @ e2 @
              [ElementSetState (playbin eng) GST_STATE_NULL, ObjectUnref (playbin eng),
               MainLoopUnref (Some (mainloop eng)), Cout [Str ''Cleanup complete'', Endl]]))
       (startPlayback eng (configured_by eng url) sched)"
proof -
  from assms obtain h where h: "playbin eng = Some h" by auto
  let ?p = "\<lparr>m_streamUrl = url, m_pipeline = Some h, m_mainloop = Some (mainloop eng),
             m_quit = False\<rparr>"
  have cb: "configured_by eng url = ?p" by (simp add: configured_by_def h)
  show ?thesis
  proof (cases "startPlayback eng ?p sched")
    case None
    then show ?thesis
      by (simp add: main_def MyVideoPlayer_def setupPlayer_def Let_def cb h)
  next
    case (Some r)
    obtain p2 e2 where r: "r = (p2, e2)" by (cases r)
    from Some r startPlayback_result [of eng ?p sched p2 e2]
    have p2: "p2 = ?p\<lparr>m_quit := True\<rparr>" by simp
    have cl: "cleanup False p2 = (p2\<lparr>m_pipeline := None, m_mainloop := None\<rparr>,
        [ElementSetState (Some h) GST_STATE_NULL, ObjectUnref (Some h),
         MainLoopUnref (Some (mainloop eng)), Cout [Str ''Cleanup complete'', Endl]])"
      by (simp add: cleanup_def p2)
    show ?thesis
      using Some r cl
      by (simp add: main_def MyVideoPlayer_def setupPlayer_def Let_def cb h)
  qed
qed

lemma handleBusMessage_stops:
  "stops_loop m \<Longrightarrow> MainLoopQuit (m_mainloop p) \<in> set (fst (handleBusMessage p m))"
  by (auto simp: stops_loop_def handleBusMessage_def)

lemma g_main_loop_run_stop:
  "stops_loop m \<Longrightarrow>
   g_main_loop_run eng p th (BusMessage m # post) = Some (fst (handleBusMessage p m), th, post)"
  using handleBusMessage_stops [of m p] by simp

lemma g_main_loop_run_terminates:
  assumes "stops_loop m"
  shows "\<exists>evs th' rest. g_main_loop_run eng p th (pre @ BusMessage m # post) = Some (evs, th', rest)
           \<and> set post \<subseteq> set rest"
proof (induction pre arbitrary: th)
  case Nil
  show ?case by (simp only: append_Nil g_main_loop_run_stop [OF assms]) simp
next
  case (Cons s ss)
  obtain e t where st: "(case s of BusMessage msg \<Rightarrow> (fst (handleBusMessage p msg), th)
                          | _ \<Rightarrow> background eng p th s) = (e, t)"
    by (cases "(case s of BusMessage msg \<Rightarrow> (fst (handleBusMessage p msg), th)
                          | _ \<Rightarrow> background eng p th s)") auto
  show ?case
  proof (cases "MainLoopQuit (m_mainloop p) \<in> set e")
    case True
    with st show ?thesis by auto
  next
    case False
    from Cons.IH [of t] obtain evs th' rest where
      "g_main_loop_run eng p t (ss @ BusMessage m # post) = Some (evs, th', rest)"
      and "set post \<subseteq> set rest" by blast
    with False st show ?thesis by simp
  qed
qed

lemma join_not_running:
  "\<not> input_running th \<Longrightarrow> join_inputThread eng p th ss = Some []"
  by (cases ss) simp_all

lemma join_inputThread_terminates:
  "StdinEof \<in> set ss \<Longrightarrow> \<exists>evs. join_inputThread eng p th ss = Some evs"
proof (induction ss arbitrary: th)
  case Nil
  then show ?case by simp
next
  case (Cons s ss)
  show ?case
  proof (cases "input_running th")
    case False
    then show ?thesis by simp
  next
    case True
    show ?thesis
    proof (cases "s = StdinEof")
      case True
      then show ?thesis using join_not_running [of "th\<lparr>input_running := False\<rparr>" eng p ss]
        by simp
    next
      case False
      with Cons.prems have "StdinEof \<in> set ss" by simp
      from Cons.IH [OF this] show ?thesis
        by (cases "background eng p th s") (auto simp: True)
    qed
  qed
qed

lemma startPlayback_returns:
  assumes "stops_loop m" and "StdinEof \<in> set post" and "m_pipeline p \<noteq> None"
  shows "\<exists>r. startPlayback eng p (pre @ BusMessage m # post) = Some r"
proof -
  from g_main_loop_run_terminates [OF assms(1)]
  obtain evs th' rest where
    run: "g_main_loop_run eng p \<lparr>input_running = True, info_sleeping = True\<rparr>
            (pre @ BusMessage m # post) = Some (evs, th', rest)"
    and "set post \<subseteq> set rest" by blast
  with assms(2) have "StdinEof \<in> set rest" by blast
  from join_inputThread_terminates [OF this]
  obtain evs' where "join_inputThread eng (p\<lparr>m_quit := True\<rparr>) th' rest = Some evs'" by blast
  with run assms(3) show ?thesis by (simp add: startPlayback_def Let_def)
qed

lemma main_exits:
  assumes "playbin eng \<noteq> None" and "stops_loop m" and "StdinEof \<in> set post"
  shows "map_option fst (main argv0 (url # others) eng (pre @ BusMessage m # post)) = Some 0"
proof -
  have "m_pipeline (configured_by eng url) \<noteq> None"
    using assms(1) by (simp add: configured_by_def)
  from startPlayback_returns [OF assms(2,3) this]
  obtain r where "startPlayback eng (configured_by eng url) (pre @ BusMessage m # post) = Some r"
    by blast
  then show ?thesis
    by (cases r) (simp add: main_playing [OF assms(1)])
qed






text \<open>
  Claim C5. Without an argument after the program name the process exits with code 1. With
  one, it exits with code 2 when the playbin cannot be created. Otherwise, whenever the
  process exits its code is 0, \<open>g_main_loop_quit\<close> has been called on its loop and its trace
  ends with the teardown of \<open>cleanup\<close>; and it does exit with code 0 on every schedule in
  which an error or end-of-stream message is followed, anywhere later, by the end of
  standard input.
\<close>

theorem exit_codes:
  "(args = [] \<longrightarrow> map_option fst (main prog args eng sched) = Some 1)
   \<and> (args \<noteq> [] \<and> playbin eng = None \<longrightarrow>
        map_option fst (main prog args eng sched) = Some 2)
   \<and> (args \<noteq> [] \<and> playbin eng \<noteq> None \<and> main prog args eng sched = Some (code, evs) \<longrightarrow>
        code = 0 \<and> MainLoopQuit (Some (mainloop eng)) \<in> set evs
        \<and> (\<exists>evs'. evs = evs' @
              [ElementSetState (playbin eng) GST_STATE_NULL, ObjectUnref (playbin eng),
               MainLoopUnref (Some (mainloop eng)), Cout [Str ''Cleanup complete'', Endl]]))
   \<and> (args \<noteq> [] \<and> playbin eng \<noteq> None \<and> stops_loop m \<and> StdinEof \<in> set post \<longrightarrow>
        map_option fst (main prog args eng (pre @ BusMessage m # post)) = Some 0)"
proof (cases args)
  case Nil
  then show ?thesis by (simp add: main_usage)
next
  case (Cons url others)
  show ?thesis
  proof (cases "playbin eng = None")
    case True
    with Cons show ?thesis by (simp add: main_fatal)
  next
    case False
    have pl: "m_pipeline (configured_by eng url) \<noteq> None"
      using False by (simp add: configured_by_def)
    have ml: "m_mainloop (configured_by eng url) = Some (mainloop eng)"
      by (simp add: configured_by_def)
    have exit: "code = 0 \<and> MainLoopQuit (Some (mainloop eng)) \<in> set evs
        \<and> (\<exists>evs'. evs = evs' @
              [ElementSetState (playbin eng) GST_STATE_NULL, ObjectUnref (playbin eng),
               MainLoopUnref (Some (mainloop eng)), Cout [Str ''Cleanup complete'', Endl]])"
      if m: "main prog (url # others) eng sched = Some (code, evs)"
    proof -
      from m main_playing [OF False, of prog url others sched]
      obtain p2 e2 where sp: "startPlayback eng (configured_by eng url) sched = Some (p2, e2)"
        and code: "code = 0"
        and evs: "evs = snd (MyVideoPlayer url)
             @ snd (snd (setupPlayer eng (fst (MyVideoPlayer url)))) @ e2
             @ [ElementSetState (playbin eng) GST_STATE_NULL, ObjectUnref (playbin eng),
                MainLoopUnref (Some (mainloop eng)), Cout [Str ''Cleanup complete'', Endl]]"
        by auto
      from startPlayback_quit [OF sp pl] ml
      have "MainLoopQuit (Some (mainloop eng)) \<in> set e2" by simp
      with evs have "MainLoopQuit (Some (mainloop eng)) \<in> set evs" by simp
      moreover from evs have "evs = (snd (MyVideoPlayer url)
             @ snd (snd (setupPlayer eng (fst (MyVideoPlayer url)))) @ e2)
             @ [ElementSetState (playbin eng) GST_STATE_NULL, ObjectUnref (playbin eng),
                MainLoopUnref (Some (mainloop eng)), Cout [Str ''Cleanup complete'', Endl]]"
        by simp
      ultimately show ?thesis using code by blast
    qed
    have prog: "map_option fst (main prog (url # others) eng (pre @ BusMessage m # post)) = Some 0"
      if "stops_loop m" and "StdinEof \<in> set post"
      using main_exits [OF False that] .
    from exit prog False Cons show ?thesis by blast
  qed
qed

theorem exit_codes_witness:
  "map_option fst (main ''player'' [] demo_engine []) = Some 1
   \<and> demo_args \<noteq> [] \<and> playbin (demo_engine\<lparr>playbin := None\<rparr>) = None
   \<and> map_option fst (main ''player'' demo_args (demo_engine\<lparr>playbin := None\<rparr>) []) = Some 2
   \<and> playbin demo_engine \<noteq> None
   \<and> main ''player'' demo_args demo_engine
         [BusMessage (demo_message GST_MESSAGE_EOS (Some 1)), StdinEof] =
       Some (0,
         [Cout [Str ''MyVideoPlayer initializing for: '', Str ''http://host/stream.m3u8'', Endl],
          GstInit, ElementFactoryMake ''playbin'' ''my-player'',
          SetUri (Some 1) ''http://host/stream.m3u8'',
          GObjectSet (Some 1) ''latency'' 500,
          GObjectSet (Some 1) ''buffer-size'' 4194304,
          GObjectSet (Some 1) ''ring-buffer-max-size'' 0, ElementGetBus (Some 1),
          BusAddWatch (Some 3), ObjectUnref (Some 3), MainLoopNew,
          Cout [Str ''Player setup complete. Ready to play!'', Endl],
          Cout [Str '' Starting playback...'', Endl],
          ElementSetState (Some 1) GST_STATE_PLAYING, Spawn InfoThread,
          Detach InfoThread, Spawn InputThread, MainLoopRun (Some 2)] @ controls_banner @
         [Cout [Str ''End of Stream reached'', Endl], MainLoopQuit (Some 2),
          Join InputThread,
          ElementSetState (Some 1) GST_STATE_NULL, ObjectUnref (Some 1),
          MainLoopUnref (Some 2), Cout [Str ''Cleanup complete'', Endl]])
   \<and> stops_loop (demo_message GST_MESSAGE_EOS (Some 1)) \<and> StdinEof \<in> set [StdinEof]
   \<and> map_option fst (main ''player'' demo_args demo_engine
        ([StdinLine ''a2''] @ BusMessage (demo_message GST_MESSAGE_EOS (Some 1)) # [StdinEof]))
       = Some 0"
proof -
  let ?trace =
        "[Cout [Str ''MyVideoPlayer initializing for: '', Str ''http://host/stream.m3u8'', Endl],
          GstInit, ElementFactoryMake ''playbin'' ''my-player'',
          SetUri (Some 1) ''http://host/stream.m3u8'',
          GObjectSet (Some 1) ''latency'' 500,
          GObjectSet (Some 1) ''buffer-size'' 4194304,
          GObjectSet (Some 1) ''ring-buffer-max-size'' 0, ElementGetBus (Some 1),
          BusAddWatch (Some 3), ObjectUnref (Some 3), MainLoopNew,
          Cout [Str ''Player setup complete. Ready to play!'', Endl],
          Cout [Str '' Starting playback...'', Endl],
          ElementSetState (Some 1) GST_STATE_PLAYING, Spawn InfoThread,
          Detach InfoThread, Spawn InputThread, MainLoopRun (Some 2)] @ controls_banner @
         [Cout [Str ''End of Stream reached'', Endl], MainLoopQuit (Some 2),
          Join InputThread,
          ElementSetState (Some 1) GST_STATE_NULL, ObjectUnref (Some 1),
          MainLoopUnref (Some 2), Cout [Str ''Cleanup complete'', Endl]]"
  have a: "demo_args \<noteq> []" by (simp add: demo_args_def)
  have b: "playbin demo_engine \<noteq> None" by (simp add: demo_engine_def)
  have c: "playbin (demo_engine\<lparr>playbin := None\<rparr>) = None" by simp
  have d: "stops_loop (demo_message GST_MESSAGE_EOS (Some 1))"
    by (simp add: stops_loop_def demo_message_def)
  have e: "StdinEof \<in> set [StdinEof]" by simp
  have run: "main ''player'' demo_args demo_engine
         [BusMessage (demo_message GST_MESSAGE_EOS (Some 1)), StdinEof] = Some (0, ?trace)"
    by (simp add: main_def demo_args_def demo_engine_def demo_message_def MyVideoPlayer_def
        setupPlayer_def startPlayback_def cleanup_def handleBusMessage_def Let_def)
  from exit_codes [where args = "[]" and prog = "''player''" and eng = demo_engine and sched = "[]"]
  have 1: "map_option fst (main ''player'' [] demo_engine []) = Some 1" by blast
  from exit_codes [where args = demo_args and prog = "''player''"
      and eng = "demo_engine\<lparr>playbin := None\<rparr>" and sched = "[]"] a c
  have 2: "map_option fst (main ''player'' demo_args (demo_engine\<lparr>playbin := None\<rparr>) []) = Some 2"
    by blast
  from exit_codes [where args = demo_args and prog = "''player''" and eng = demo_engine
      and sched = "[BusMessage (demo_message GST_MESSAGE_EOS (Some 1)), StdinEof]"
      and code = 0 and evs = ?trace] a b run
  have 3: "MainLoopQuit (Some (mainloop demo_engine)) \<in> set ?trace" by blast
  from exit_codes [where args = demo_args and prog = "''player''" and eng = demo_engine
      and m = "demo_message GST_MESSAGE_EOS (Some 1)" and post = "[StdinEof]"
      and pre = "[StdinLine ''a2'']"] a b d e
  have 4: "map_option fst (main ''player'' demo_args demo_engine
        ([StdinLine ''a2''] @ BusMessage (demo_message GST_MESSAGE_EOS (Some 1)) # [StdinEof]))
       = Some 0"
    by blast
  from 1 2 3 4 a b c d e run show ?thesis by blast
qed

text \<open>
  Claim C6. When the playbin cannot be created, the process exits with code 2 whatever the
  schedule; its whole trace is the construction attempt, the fatal message and the teardown
  log: no thread is spawned, the pipeline is never set to \<open>PLAYING\<close> and the event loop is
  never run.
\<close>

theorem construction_failure:
  assumes "args \<noteq> []" and "playbin eng = None"
  shows "main prog args eng sched =
           Some (2, [Cout [Str ''MyVideoPlayer initializing for: '', Str (hd args), Endl],
                     GstInit, ElementFactoryMake ''playbin'' ''my-player'',
                     Cerr [Str ''FATAL: Could not create playbin!'', Endl],
                     Cout [Str ''Cleanup complete'', Endl]])
       \<and> (\<forall>code evs. main prog args eng sched = Some (code, evs) \<longrightarrow>
             code = 2 \<and> (\<forall>t. Spawn t \<notin> set evs)
             \<and> (\<forall>h. ElementSetState h GST_STATE_PLAYING \<notin> set evs)
             \<and> (\<forall>l. MainLoopRun l \<notin> set evs))"
proof -
  from assms(1) obtain url others where args: "args = url # others" by (cases args) auto
  from main_fatal [OF assms(2), of prog url others sched] args
  show ?thesis by auto
qed

theorem construction_failure_witness:
  "demo_args \<noteq> [] \<and> playbin (demo_engine\<lparr>playbin := None\<rparr>) = None
   \<and> main ''player'' demo_args (demo_engine\<lparr>playbin := None\<rparr>) [StdinLine ''a1'', StdinEof] =
       Some (2, [Cout [Str ''MyVideoPlayer initializing for: '', Str ''http://host/stream.m3u8'', Endl],
                 GstInit, ElementFactoryMake ''playbin'' ''my-player'',
                 Cerr [Str ''FATAL: Could not create playbin!'', Endl],
                 Cout [Str ''Cleanup complete'', Endl]])"
proof -
  have a: "demo_args \<noteq> []" by (simp add: demo_args_def)
  have c: "playbin (demo_engine\<lparr>playbin := None\<rparr>) = None" by simp
  have h: "hd demo_args = ''http://host/stream.m3u8''" by (simp add: demo_args_def)
  from construction_failure [OF a c, where prog = "''player''"
      and sched = "[StdinLine ''a1'', StdinEof]"]
  have "main ''player'' demo_args (demo_engine\<lparr>playbin := None\<rparr>) [StdinLine ''a1'', StdinEof] =
       Some (2, [Cout [Str ''MyVideoPlayer initializing for: '', Str (hd demo_args), Endl],
                 GstInit, ElementFactoryMake ''playbin'' ''my-player'',
                 Cerr [Str ''FATAL: Could not create playbin!'', Endl],
                 Cout [Str ''Cleanup complete'', Endl]])"
    by (rule conjunct1)
  with a c h show ?thesis by simp
qed








end
